theory Spec2Isabelle
  imports Complex_Main
begin

section \<open>JavaScript values\<close>

text \<open>
  Request bodies, error fields and HTTP status arguments are dynamically typed in the
  source. They are embedded as \<open>jsval\<close>. Numbers are exact rationals (the reading of an
  IEEE double below the precision limit); a string is a list of code units below 256,
  and the accented letters of the French messages are written without their accents.
\<close>

datatype jsval =
    JUndefined
  | JNull
  | JBool bool
  | JNum rat
  | JStr string
  | JObj "(string \<times> jsval) list"

text \<open>Property access \<open>obj.k\<close> on a plain object: a missing key reads \<open>undefined\<close>.\<close>

definition js_get :: "(string \<times> jsval) list \<Rightarrow> string \<Rightarrow> jsval" where
  "js_get obj k = (case map_of obj k of None \<Rightarrow> JUndefined | Some v \<Rightarrow> v)"

section \<open>Utils/errorResponse.js and the schema validator\<close>

text \<open>
  The issues a schema check reports, named after the error types of the validation
  library (\<open>any.required\<close>, \<open>string.base\<close>, \<open>string.empty\<close>, \<open>string.max\<close>,
  \<open>number.base\<close>, \<open>number.min\<close>, \<open>number.max\<close>, \<open>object.unknown\<close>).
\<close>

datatype joi_issue =
    AnyRequired
  | StringBase
  | StringEmpty
  | StringMax
  | NumberBase
  | NumberMin
  | NumberMax
  | ObjectUnknown

text \<open>
  \<open>class ErrorResponse extends Error\<close>: \<open>constructor(message, code, statusCode = 500,
  options = {})\<close>. The fields \<open>status\<close>, \<open>success\<close> and \<open>timestamp\<close> are derived
  from these and the clock, and no caller below reads them. The constructor stores its
  second argument as \<open>code\<close> and its third as \<open>statusCode\<close>, whatever their types;
  the default 500 applies to an \<open>undefined\<close> third argument only.
\<close>

record error_response =
  message :: string
  code :: jsval
  statusCode :: jsval
  details :: "(string \<times> joi_issue) list option"

definition ErrorResponse ::
  "string \<Rightarrow> jsval \<Rightarrow> jsval \<Rightarrow> (string \<times> joi_issue) list option \<Rightarrow> error_response" where
  "ErrorResponse m c sc d =
     \<lparr> message = m, code = c,
       statusCode = (if sc = JUndefined then JNum 500 else sc),
       details = d \<rparr>"

text \<open>
  What a \<open>try\<close> block can catch: a \<open>TypeError\<close> of the language, a thrown
  \<open>ErrorResponse\<close>, or an error object of a library, known by its \<open>name\<close> property.
\<close>

datatype exn =
    TypeError string
  | Thrown error_response
  | LibError string

subsection \<open>Schemas of Middlewares/validator.js\<close>

text \<open>
  The two rule shapes the note and average schemas use:
  \<open>Joi.string().required().max(n)\<close> and \<open>Joi.number().required().min(a).max(b)\<close>.
\<close>

datatype joi_rule =
    StringRequiredMax nat
  | NumberRequiredMinMax rat rat

type_synonym joi_schema = "(string \<times> joi_rule) list"

definition noteCreateSchema :: joi_schema where
  "noteCreateSchema =
     [ (''matriculEleve'', StringRequiredMax 20),
       (''codeEva'', StringRequiredMax 10),
       (''codeCompo'', StringRequiredMax 10),
       (''note'', NumberRequiredMinMax 0 10) ]"

definition moyenneCreateSchema :: joi_schema where
  "moyenneCreateSchema =
     [ (''matriculEleve'', StringRequiredMax 20),
       (''codeCompo'', StringRequiredMax 10),
       (''moyenne'', NumberRequiredMinMax 0 10) ]"

text \<open>
  \<open>schema.validate(data, { abortEarly: false, allowUnknown: false })\<close>: every key of the
  schema is checked against its rule, and every key of the data that the schema does not
  declare is reported. The library itself is not part of the repository; the check
  follows its documented behaviour for these two rules on JSON values. (Its coercion of
  a numeric string into a number is left out: a string under a number rule is reported
  as \<open>number.base\<close>.)
\<close>

fun joi_check :: "joi_rule \<Rightarrow> jsval \<Rightarrow> joi_issue list" where
  "joi_check (StringRequiredMax n) JUndefined = [AnyRequired]"
| "joi_check (StringRequiredMax n) (JStr s) =
     (if s = [] then [StringEmpty] else if n < length s then [StringMax] else [])"
| "joi_check (StringRequiredMax n) v = [StringBase]"
| "joi_check (NumberRequiredMinMax a b) JUndefined = [AnyRequired]"
| "joi_check (NumberRequiredMinMax a b) (JNum x) =
     (if x < a then [NumberMin] else if b < x then [NumberMax] else [])"
| "joi_check (NumberRequiredMinMax a b) v = [NumberBase]"

fun joi_declared :: "joi_schema \<Rightarrow> (string \<times> jsval) list \<Rightarrow> (string \<times> joi_issue) list" where
  "joi_declared [] data = []"
| "joi_declared ((k, r) # rest) data =
     map (Pair k) (joi_check r (js_get data k)) @ joi_declared rest data"

fun joi_unknown :: "joi_schema \<Rightarrow> (string \<times> jsval) list \<Rightarrow> (string \<times> joi_issue) list" where
  "joi_unknown schema [] = []"
| "joi_unknown schema ((k, v) # rest) =
     (if k \<in> set (map fst schema) then joi_unknown schema rest
      else (k, ObjectUnknown) # joi_unknown schema rest)"

definition joi_validate :: "joi_schema \<Rightarrow> (string \<times> jsval) list \<Rightarrow> (string \<times> joi_issue) list" where
  "joi_validate schema data = joi_declared schema data @ joi_unknown schema data"

text \<open>\<open>error.details.map((err) => err.message).join(', ')\<close>, with a plain wording.\<close>

fun issue_text :: "joi_issue \<Rightarrow> string" where
  "issue_text AnyRequired = '' is required''"
| "issue_text StringBase = '' must be a string''"
| "issue_text StringEmpty = '' is not allowed to be empty''"
| "issue_text StringMax = '' length must be less than or equal to the limit''"
| "issue_text NumberBase = '' must be a number''"
| "issue_text NumberMin = '' must be greater than or equal to the minimum''"
| "issue_text NumberMax = '' must be less than or equal to the maximum''"
| "issue_text ObjectUnknown = '' is not allowed''"

fun join_messages :: "(string \<times> joi_issue) list \<Rightarrow> string" where
  "join_messages [] = []"
| "join_messages [(k, i)] = k @ issue_text i"
| "join_messages ((k, i) # rest) = k @ issue_text i @ '', '' @ join_messages rest"

text \<open>
  \<open>new\<close> applied to a value that is not a constructor. In
  \<open>throw new new ErrorResponse(...)\<close> the inner \<open>new\<close> builds the instance and the outer
  \<open>new\<close> is applied to that instance, which raises a \<open>TypeError\<close>; the instance is lost.
\<close>

definition new_on_instance :: "error_response \<Rightarrow> exn" where
  "new_on_instance e = TypeError ''is not a constructor''"

text \<open>
  \<open>Validator.validate(data, schema, statusCode = 400)\<close>. No caller passes a status code,
  so the default is written in.
\<close>

definition validate :: "(string \<times> jsval) list \<Rightarrow> joi_schema \<Rightarrow> exn + unit" where
  "validate data schema =
     (let error = joi_validate schema data in
      if error \<noteq> [] then
        Inl (new_on_instance
               (ErrorResponse (join_messages error) (JStr ''VALIDATION_ERROR'') (JNum 400)
                  (Some error)))
      else Inr ())"

text \<open>
  \<open>Validator.middleware(schema)\<close>, the route-level check: \<open>next()\<close> when the body is
  accepted, \<open>next(err)\<close> with whatever \<open>validate\<close> threw otherwise.
\<close>

datatype next_call = NextOk | NextErr exn

definition middleware :: "joi_schema \<Rightarrow> (string \<times> jsval) list \<Rightarrow> next_call" where
  "middleware schema body =
     (case validate body schema of Inr u \<Rightarrow> NextOk | Inl err \<Rightarrow> NextErr err)"

section \<open>Controllers: shared error handling\<close>

text \<open>
  What a controller method ends with: \<open>next(err)\<close> with an \<open>ErrorResponse\<close>, or
  \<open>response.status(n).json({ success: true, data })\<close>.
\<close>

datatype 'a outcome =
    Next error_response
  | Respond nat 'a

text \<open>
  \<open>handleError(error, message, request, next)\<close>: an \<open>ErrorResponse\<close> is passed on as it
  is, anything else becomes a generic \<open>SERVER_ERROR\<close> of status 500. The value is the
  argument of \<open>next\<close>.
\<close>

definition handleError :: "exn \<Rightarrow> string \<Rightarrow> error_response" where
  "handleError error msg =
     (case error of
        Thrown e \<Rightarrow> e
      | TypeError t \<Rightarrow> ErrorResponse msg (JStr ''SERVER_ERROR'') (JNum 500) None
      | LibError n \<Rightarrow> ErrorResponse msg (JStr ''SERVER_ERROR'') (JNum 500) None)"

section \<open>Controllers/moyenne.js\<close>

text \<open>
  A fetched \<open>Note\<close> row with its \<open>evaluationType\<close> include: the joined row is \<open>null\<close>
  when the association finds nothing, and reading \<open>coeficient\<close> from it raises.
\<close>

record evaluation =
  codeEva :: string
  coeficient :: rat

record note_row =
  note_value :: rat
  evaluationType :: "evaluation option"

record moyenne_row =
  matriculEleve :: jsval
  codeCompo :: jsval
  moyenne :: rat

text \<open>
  \<open>notes.reduce((sum, note) => sum + note.note * note.evaluationType.coeficient, 0)\<close> and
  \<open>notes.reduce((sum, note) => sum + note.evaluationType.coeficient, 0)\<close>, left to right
  with the running sum \<open>acc\<close>.
\<close>

fun reduce_total :: "note_row list \<Rightarrow> rat \<Rightarrow> exn + rat" where
  "reduce_total [] acc = Inr acc"
| "reduce_total (n # ns) acc =
     (case evaluationType n of
        None \<Rightarrow> Inl (TypeError ''Cannot read properties of null'')
      | Some e \<Rightarrow> reduce_total ns (acc + note_value n * coeficient e))"

fun reduce_totalCoef :: "note_row list \<Rightarrow> rat \<Rightarrow> exn + rat" where
  "reduce_totalCoef [] acc = Inr acc"
| "reduce_totalCoef (n # ns) acc =
     (case evaluationType n of
        None \<Rightarrow> Inl (TypeError ''Cannot read properties of null'')
      | Some e \<Rightarrow> reduce_totalCoef ns (acc + coeficient e))"

text \<open>
  Modelled from the spec: the data-access layer is an external collaborator; section 4.4
  gives its upsert as create-if-absent, else overwrite, per (student, composition) key.
  The table of averages is a map from the key of the \<open>where\<close> clause to the stored value.
  \<open>findOrCreate\<close> returns the row and whether it was created; \<open>record.update\<close>
  overwrites the value of an existing row.
\<close>

type_synonym moyenne_table = "jsval \<times> jsval \<rightharpoonup> rat"

definition findOrCreate ::
  "moyenne_table \<Rightarrow> jsval \<times> jsval \<Rightarrow> rat \<Rightarrow> (moyenne_row \<times> bool) \<times> moyenne_table" where
  "findOrCreate tbl k dflt =
     (case tbl k of
        Some v \<Rightarrow>
          ((\<lparr> matriculEleve = fst k, codeCompo = snd k, moyenne = v \<rparr>, False), tbl)
      | None \<Rightarrow>
          ((\<lparr> matriculEleve = fst k, codeCompo = snd k, moyenne = dflt \<rparr>, True),
           tbl(k \<mapsto> dflt)))"

definition record_update :: "moyenne_table \<Rightarrow> moyenne_row \<Rightarrow> rat \<Rightarrow> moyenne_row \<times> moyenne_table" where
  "record_update tbl r v =
     (r\<lparr> moyenne := v \<rparr>, tbl((matriculEleve r, codeCompo r) \<mapsto> v))"

text \<open>
  \<open>MoyenneController.calculateMoyenne\<close>. \<open>findAll\<close> stands for
  \<open>db.Note.findAll({ where: { matriculEleve, codeCompo }, include: [...] })\<close>, a call
  into the data-access layer that returns the fetched rows or throws. The two values of
  the \<open>where\<close> clause are read from the body keys \<open>eleve\<close> and \<open>compos\<close>.
\<close>

definition calculateMoyenne ::
  "(jsval \<Rightarrow> jsval \<Rightarrow> exn + note_row list) \<Rightarrow> moyenne_table \<Rightarrow> (string \<times> jsval) list
     \<Rightarrow> moyenne_row outcome \<times> moyenne_table" where
  "calculateMoyenne findAll tbl body =
     (case validate body moyenneCreateSchema of
        Inl err \<Rightarrow> (Next (handleError err ''Erreur lors du calcul de la moyenne.''), tbl)
      | Inr u \<Rightarrow>
          (let eleve = js_get body ''eleve'';
               compos = js_get body ''compos'' in
           case findAll eleve compos of
             Inl err \<Rightarrow> (Next (handleError err ''Erreur lors du calcul de la moyenne.''), tbl)
           | Inr notes \<Rightarrow>
               if length notes = 0 then
                 (Next (ErrorResponse ''Aucune note trouvee pour calculer la moyenne.''
                          (JStr ''NO_GRADES'') (JNum 404) None), tbl)
               else
                 (case reduce_total notes 0 of
                    Inl err \<Rightarrow>
                      (Next (handleError err ''Erreur lors du calcul de la moyenne.''), tbl)
                  | Inr totalNote \<Rightarrow>
                      (case reduce_totalCoef notes 0 of
                         Inl err \<Rightarrow>
                           (Next (handleError err ''Erreur lors du calcul de la moyenne.''), tbl)
                       | Inr totalCoef \<Rightarrow>
                           (let moy = (if totalCoef = 0 then 0 else totalNote / totalCoef);
                                found = findOrCreate tbl (eleve, compos) moy;
                                created = snd (fst found);
                                upd = (if \<not> created
                                       then record_update (snd found) (fst (fst found)) moy
                                       else (fst (fst found), snd found))
                            in (Respond (if created then 201 else 200) (fst upd), snd upd))))))"

section \<open>Controllers/note.js\<close>

text \<open>
  \<open>NoteController.createNote\<close>. \<open>create\<close> stands for \<open>this.model.create({...})\<close>: it
  takes the four values read from the body and the store, and returns the new row with
  the updated store, or throws.
\<close>

definition createNote ::
  "(jsval \<times> jsval \<times> jsval \<times> jsval \<Rightarrow> 'st \<Rightarrow> exn + 'row \<times> 'st) \<Rightarrow> 'st \<Rightarrow> (string \<times> jsval) list
     \<Rightarrow> 'row outcome \<times> 'st" where
  "createNote create st body =
     (case validate body noteCreateSchema of
        Inl err \<Rightarrow> (Next (handleError err ''Erreur lors de la creation de la note.''), st)
      | Inr u \<Rightarrow>
          (let eleve = js_get body ''eleve'';
               evaluation = js_get body ''evaluation'';
               compos = js_get body ''compos'';
               noteval = js_get body ''note'' in
           case create (eleve, evaluation, compos, noteval) st of
             Inl err \<Rightarrow> (Next (handleError err ''Erreur lors de la creation de la note.''), st)
           | Inr (newNote, st') \<Rightarrow> (Respond 201 newNote, st')))"

section \<open>Middlewares/authMiddleware.js\<close>

text \<open>
  The identity attached to the request as \<open>req.auth\<close>, and the \<open>User\<close> row it is copied
  from (fetched with the attributes \<open>userId\<close>, \<open>username\<close>, \<open>userRole\<close>, \<open>ecoleId\<close>,
  \<open>lastLogin\<close>). The columns have the types the \<open>User\<close> model declares: an integer
  key, and a string school reference that the code still tests for being empty or null.
\<close>

record identity =
  userId :: int
  username :: string
  userRole :: string
  ecoleId :: "string option"

record user_row = identity +
  lastLogin :: jsval

text \<open>
  \<open>str.split(sep)\<close> for a separator of one character: the pieces between the
  occurrences, so an empty string gives one empty piece.
\<close>

fun split_on :: "char \<Rightarrow> string \<Rightarrow> string list" where
  "split_on c [] = [[]]"
| "split_on c (x # xs) =
     (if x = c then [] # split_on c xs
      else (case split_on c xs of
              [] \<Rightarrow> [[x]]
            | p # ps \<Rightarrow> (x # p) # ps))"

text \<open>
  \<open>const token = authHeader && authHeader.split(' ')[1]\<close>. The header is absent
  (\<open>None\<close>) or a string; the result is \<open>None\<close> where the source has \<open>undefined\<close>.
  An empty header is falsy and is itself the value of the conjunction.
\<close>

definition bearer_token :: "string option \<Rightarrow> string option" where
  "bearer_token authHeader =
     (case authHeader of
        None \<Rightarrow> None
      | Some h \<Rightarrow>
          if h = [] then Some []
          else (case split_on CHR '' '' h of
                  p # t # ps \<Rightarrow> Some t
                | ps \<Rightarrow> None))"

text \<open>\<open>!token\<close>: no value, or the empty string.\<close>

definition token_missing :: "string option \<Rightarrow> bool" where
  "token_missing token = (case token of None \<Rightarrow> True | Some t \<Rightarrow> t = [])"

text \<open>The \<open>name\<close> property of a caught error; \<open>ErrorResponse\<close> does not set its own.\<close>

fun error_name :: "exn \<Rightarrow> string" where
  "error_name (TypeError t) = ''TypeError''"
| "error_name (Thrown e) = ''Error''"
| "error_name (LibError n) = n"

text \<open>
  What a middleware ends with: \<open>res.status(s).json({ success: false, error: { code,
  message } })\<close>, recorded with the arguments as they are passed, or \<open>next()\<close>, with the
  identity attached to the request where there is one.
\<close>

datatype auth_reply =
    Reply jsval jsval string
  | NextWith identity
  | NextPlain

text \<open>
  The body of the \<open>try\<close> block of \<open>authenticate\<close>. \<open>verify\<close> stands for \<open>jwt.verify\<close>
  (it returns the decoded payload or throws an error named \<open>TokenExpiredError\<close>,
  \<open>JsonWebTokenError\<close> or \<open>NotBeforeError\<close>), \<open>findByPk\<close> for \<open>db.User.findByPk\<close>.
\<close>

definition authenticate_try ::
  "string option \<Rightarrow> (string \<Rightarrow> string \<Rightarrow> exn + (string \<times> jsval) list)
     \<Rightarrow> (jsval \<Rightarrow> exn + user_row option) \<Rightarrow> string \<Rightarrow> exn + auth_reply" where
  "authenticate_try secret verify findByPk token =
     (case secret of
        None \<Rightarrow>
          Inl (Thrown (ErrorResponse ''Configuration JWT invalide.'' (JNum 500)
                 (JObj [(''code'', JStr ''JWT_CONFIG_ERROR''),
                        (''message'', JStr ''Cle secrete JWT manquante dans la configuration du serveur.'')])
                 None))
      | Some s \<Rightarrow>
          if s = [] then
            Inl (Thrown (ErrorResponse ''Configuration JWT invalide.'' (JNum 500)
                   (JObj [(''code'', JStr ''JWT_CONFIG_ERROR''),
                          (''message'', JStr ''Cle secrete JWT manquante dans la configuration du serveur.'')])
                   None))
          else
            (case verify token s of
               Inl err \<Rightarrow> Inl err
             | Inr decoded \<Rightarrow>
                 (case findByPk (js_get decoded ''userId'') of
                    Inl err \<Rightarrow> Inl err
                  | Inr None \<Rightarrow>
                      Inr (Reply (JNum 401) (JStr ''USER_NOT_FOUND'')
                             ''Compte utilisateur introuvable ou desactive.'')
                  | Inr (Some user) \<Rightarrow>
                      Inr (NextWith \<lparr> userId = userId user, username = username user,
                                      userRole = userRole user, ecoleId = ecoleId user \<rparr>))))"

text \<open>The \<open>catch\<close> block of \<open>authenticate\<close>.\<close>

definition authenticate_catch :: "exn \<Rightarrow> auth_reply" where
  "authenticate_catch error =
     (if error_name error = ''TokenExpiredError'' then
        Reply (JNum 401) (JStr ''TOKEN_EXPIRED'')
          ''Le token d authentification a expire. Veuillez vous reconnecter.''
      else if error_name error = ''JsonWebTokenError'' then
        Reply (JNum 401) (JStr ''TOKEN_MALFORMED'')
          ''Le token d authentification est malforme ou invalide.''
      else (case error of
              Thrown e \<Rightarrow> Reply (statusCode e) (code e) (message e)
            | TypeError t \<Rightarrow> Reply (JNum 401) (JStr ''INVALID_TOKEN'') ''Token invalide.''
            | LibError n \<Rightarrow> Reply (JNum 401) (JStr ''INVALID_TOKEN'') ''Token invalide.''))"

text \<open>\<open>AuthMiddleware.authenticate\<close>, on the \<open>authorization\<close> header of the request.\<close>

definition authenticate ::
  "string option \<Rightarrow> (string \<Rightarrow> string \<Rightarrow> exn + (string \<times> jsval) list)
     \<Rightarrow> (jsval \<Rightarrow> exn + user_row option) \<Rightarrow> string option \<Rightarrow> auth_reply" where
  "authenticate secret verify findByPk authHeader =
     (case bearer_token authHeader of
        None \<Rightarrow>
          Reply (JNum 401) (JStr ''AUTH_REQUIRED'') ''Authentification requise. Aucun token fourni.''
      | Some token \<Rightarrow>
          if token = [] then
            Reply (JNum 401) (JStr ''AUTH_REQUIRED'') ''Authentification requise. Aucun token fourni.''
          else (case authenticate_try secret verify findByPk token of
                  Inr r \<Rightarrow> r
                | Inl error \<Rightarrow> authenticate_catch error))"

subsection \<open>authorize\<close>

text \<open>
  \<open>options.isOwner\<close>: absent, a value that is not a function, or an asynchronous
  function of \<open>req.auth\<close> and the resource id whose result is read for its truthiness.
  \<open>options.model\<close> is absent or a model, used through its \<open>findByPk\<close>; a resource is a
  plain object.
\<close>

datatype owner_check =
    NoOwnerCheck
  | NotAFunction
  | OwnerFn "identity option \<Rightarrow> jsval \<Rightarrow> exn + bool"

record authorize_options =
  ownershipRequired :: bool
  ownerField :: "string option"
  idParam :: "string option"
  isOwner :: owner_check
  model :: "(jsval \<Rightarrow> exn + (string \<times> jsval) list option) option"

text \<open>\<open>a === b\<close> on values from two sources: two objects are never the same object.\<close>

definition strict_eq :: "jsval \<Rightarrow> jsval \<Rightarrow> bool" where
  "strict_eq a b = (case a of JObj kvs \<Rightarrow> False | v \<Rightarrow> a = b)"

text \<open>\<open>x || dflt\<close> on an optional string.\<close>

definition or_default :: "string option \<Rightarrow> string \<Rightarrow> string" where
  "or_default v dflt = (case v of None \<Rightarrow> dflt | Some s \<Rightarrow> if s = [] then dflt else s)"

text \<open>
  The ownership part of the \<open>try\<close> block: the value of \<open>isOwnerAuthorized\<close> after the
  \<open>if (options.model) ... else ...\<close> statement, or what it throws.
\<close>

definition owner_authorized ::
  "authorize_options \<Rightarrow> identity option \<Rightarrow> jsval \<Rightarrow> exn + bool" where
  "owner_authorized options auth resourceId =
     (case model options of
        Some findByPk \<Rightarrow>
          (case isOwner options of
             OwnerFn isOwnerCustomCheck \<Rightarrow> isOwnerCustomCheck auth resourceId
           | other \<Rightarrow>
               (case findByPk resourceId of
                  Inl err \<Rightarrow> Inl err
                | Inr None \<Rightarrow> Inr False
                | Inr (Some resource) \<Rightarrow>
                    (case auth of
                       None \<Rightarrow> Inl (TypeError ''Cannot read properties of undefined'')
                     | Some a \<Rightarrow>
                         Inr (strict_eq
                                (js_get resource (or_default (ownerField options) ''userId''))
                                (JNum (of_int (userId a)))))))
      | None \<Rightarrow>
          Inl (Thrown (ErrorResponse
                 ''Configuration d autorisation invalide: Modele ou fonction de propriete requis.''
                 (JNum 500)
                 (JObj [(''code'', JStr ''AUTH_CONFIG_ERROR''),
                        (''message'', JStr ''Modele Sequelize ou fonction isOwner manquante dans les options pour la verification de propriete.'')])
                 None)))"

text \<open>The \<open>catch\<close> block of \<open>authorize\<close>.\<close>

definition authorize_catch :: "exn \<Rightarrow> auth_reply" where
  "authorize_catch error =
     (case error of
        Thrown e \<Rightarrow> Reply (statusCode e) (code e) (message e)
      | TypeError t \<Rightarrow>
          Reply (JNum 500) (JStr ''AUTHORIZATION_ERROR'')
            ''Une erreur interne est survenue lors de la verification des permissions.''
      | LibError n \<Rightarrow>
          Reply (JNum 500) (JStr ''AUTHORIZATION_ERROR'')
            ''Une erreur interne est survenue lors de la verification des permissions.'')"

text \<open>
  \<open>AuthMiddleware.authorize(requiredRoles, options)\<close> applied to a request with its
  \<open>req.auth\<close> (absent when no identity was attached) and its route parameters.
\<close>

definition authorize ::
  "string list \<Rightarrow> authorize_options \<Rightarrow> identity option \<Rightarrow> (string \<times> jsval) list \<Rightarrow> auth_reply" where
  "authorize requiredRoles options auth params =
     (let resourceId = js_get params (or_default (idParam options) ''id'') in
      if requiredRoles \<noteq> [] \<and>
         (case auth of None \<Rightarrow> True | Some a \<Rightarrow> userRole a \<notin> set requiredRoles)
      then Reply (JNum 403) (JStr ''FORBIDDEN'') ''Permissions insuffisantes pour cette action.''
      else if ownershipRequired options then
        (case owner_authorized options auth resourceId of
           Inl error \<Rightarrow> authorize_catch error
         | Inr isOwnerAuthorized \<Rightarrow>
             if \<not> isOwnerAuthorized then
               Reply (JNum 403) (JStr ''OWNERSHIP_REQUIRED'')
                 ''Vous n etes pas autorise a effectuer cette action sur cette ressource.''
             else NextPlain)
      else NextPlain)"

section \<open>Utils/apiFeatures.js\<close>

text \<open>
  A value of \<open>request.query\<close>: a string, or, for a repeated or bracketed parameter, an
  array or a nested object. \<open>to_string\<close> is the string conversion that \<open>parseInt\<close> and
  a template literal apply to it.
\<close>

datatype qval =
    QStr string
  | QArr "qval list"
  | QObj "(string \<times> qval) list"

fun join_with :: "string \<Rightarrow> string list \<Rightarrow> string" where
  "join_with sep [] = []"
| "join_with sep [s] = s"
| "join_with sep (s # rest) = s @ sep @ join_with sep rest"

fun to_string :: "qval \<Rightarrow> string" where
  "to_string (QStr s) = s"
| "to_string (QArr xs) = join_with '','' (map to_string xs)"
| "to_string (QObj kvs) = ''[object Object]''"

text \<open>A truthy query value: any array or object, and any non-empty string.\<close>

fun qtruthy :: "qval option \<Rightarrow> bool" where
  "qtruthy None = False"
| "qtruthy (Some (QStr s)) = (s \<noteq> [])"
| "qtruthy (Some v) = True"

subsection \<open>String primitives\<close>

text \<open>
  White space as \<open>parseInt\<close>, \<open>parseFloat\<close> and \<open>trim\<close> skip it, among the code units
  below 256: tab, line feed, vertical tab, form feed, carriage return, space and the
  no-break space.
\<close>

definition is_space :: "char \<Rightarrow> bool" where
  "is_space c = (c \<in> set [CHR 0x09, CHR 0x0A, CHR 0x0B, CHR 0x0C, CHR 0x0D, CHR 0x20, CHR 0xA0])"

definition is_digit :: "char \<Rightarrow> bool" where
  "is_digit c = (48 \<le> (of_char c :: nat) \<and> (of_char c :: nat) \<le> 57)"

definition digit_value :: "char \<Rightarrow> nat" where
  "digit_value c = (of_char c :: nat) - 48"

text \<open>The value of a run of decimal digits, most significant first.\<close>

definition digits_value :: "string \<Rightarrow> nat" where
  "digits_value ds = foldl (\<lambda>acc c. 10 * acc + digit_value c) 0 ds"

definition trim :: "string \<Rightarrow> string" where
  "trim s = rev (dropWhile is_space (rev (dropWhile is_space s)))"

fun starts_with :: "string \<Rightarrow> string \<Rightarrow> bool" where
  "starts_with [] s = True"
| "starts_with (p # ps) [] = False"
| "starts_with (p # ps) (x # xs) = (p = x \<and> starts_with ps xs)"

text \<open>\<open>value.includes(sub)\<close>: \<open>sub\<close> occurs somewhere in \<open>value\<close>.\<close>

fun str_includes :: "string \<Rightarrow> string \<Rightarrow> bool" where
  "str_includes sub [] = (sub = [])"
| "str_includes sub (x # xs) = (starts_with sub (x # xs) \<or> str_includes sub xs)"

text \<open>\<open>value.replace(sub, '')\<close>: the first occurrence of \<open>sub\<close> is taken out.\<close>

fun remove_first :: "string \<Rightarrow> string \<Rightarrow> string" where
  "remove_first sub [] = []"
| "remove_first sub (x # xs) =
     (if starts_with sub (x # xs) then drop (length sub) (x # xs)
      else x # remove_first sub xs)"

subsection \<open>parseInt and parseFloat\<close>

text \<open>
  \<open>parseInt(string, 10)\<close>: leading white space is skipped, then an optional sign, then
  the longest run of decimal digits; \<open>None\<close> stands for \<open>NaN\<close>. This is the exact
  reading: the result is the mathematical integer of the digits, which is what the
  double holds as long as it stays below \<open>2^53\<close>. The subsection on doubles below
  gives the number that \<open>parseInt\<close> returns for every string.
\<close>

definition parseInt :: "string \<Rightarrow> int option" where
  "parseInt s =
     (let s1 = dropWhile is_space s;
          neg = (case s1 of [] \<Rightarrow> False | c # r \<Rightarrow> c = CHR ''-'');
          s2 = (case s1 of [] \<Rightarrow> [] | c # r \<Rightarrow> if c = CHR ''-'' \<or> c = CHR ''+'' then r else s1);
          ds = takeWhile is_digit s2
      in if ds = [] then None
         else Some (if neg then - int (digits_value ds) else int (digits_value ds)))"

text \<open>\<open>parseInt(v, 10)\<close> of a query parameter; an absent one converts to \<open>undefined\<close>.\<close>

definition parseInt_param :: "qval option \<Rightarrow> int option" where
  "parseInt_param v =
     (case v of None \<Rightarrow> parseInt ''undefined'' | Some q \<Rightarrow> parseInt (to_string q))"

text \<open>\<open>n || dflt\<close> on a parsed number: \<open>NaN\<close> and 0 are falsy.\<close>

definition or_int :: "int option \<Rightarrow> int \<Rightarrow> int" where
  "or_int n dflt = (case n of None \<Rightarrow> dflt | Some k \<Rightarrow> if k = 0 then dflt else k)"

text \<open>
  The result of \<open>parseFloat\<close>: \<open>NaN\<close>, an infinity, or a decimal value read exactly.
\<close>

datatype jsnum = NaN | Num rat | PosInfinity | NegInfinity

text \<open>
  \<open>parseFloat(string)\<close>: leading white space, an optional sign, then the longest prefix
  that is \<open>Infinity\<close> or a decimal literal (digits, an optional fraction, an optional
  exponent that counts only when it has digits).
\<close>

definition parseFloat :: "string \<Rightarrow> jsnum" where
  "parseFloat s =
     (let s1 = dropWhile is_space s;
          neg = (case s1 of [] \<Rightarrow> False | c # r \<Rightarrow> c = CHR ''-'');
          s2 = (case s1 of [] \<Rightarrow> [] | c # r \<Rightarrow> if c = CHR ''-'' \<or> c = CHR ''+'' then r else s1)
      in if starts_with ''Infinity'' s2 then (if neg then NegInfinity else PosInfinity)
         else
           (let ip = takeWhile is_digit s2;
                s3 = dropWhile is_digit s2;
                has_dot = (case s3 of [] \<Rightarrow> False | c # r \<Rightarrow> c = CHR ''.'');
                fp = (if has_dot then takeWhile is_digit (tl s3) else []);
                s4 = (if has_dot then dropWhile is_digit (tl s3) else s3);
                has_e = (case s4 of [] \<Rightarrow> False | c # r \<Rightarrow> c = CHR ''e'' \<or> c = CHR ''E'');
                s5 = (if has_e then tl s4 else []);
                eneg = (case s5 of [] \<Rightarrow> False | c # r \<Rightarrow> c = CHR ''-'');
                s6 = (case s5 of [] \<Rightarrow> [] | c # r \<Rightarrow> if c = CHR ''-'' \<or> c = CHR ''+'' then r else s5);
                ep = takeWhile is_digit s6;
                mant = of_nat (digits_value ip) + of_nat (digits_value fp) / 10 ^ length fp;
                scaled = (if ep = [] then mant
                          else if eneg then mant / 10 ^ digits_value ep
                          else mant * 10 ^ digits_value ep)
            in if ip = [] \<and> fp = [] then NaN
               else Num (if neg then - scaled else scaled)))"

subsection \<open>The query plan\<close>

text \<open>
  A key of the \<open>where\<close> object is a field name or the symbol \<open>Op.or\<close>. A condition is a
  plain value (equality), an operator object, or the list of pattern conditions under
  \<open>Op.or\<close>.
\<close>

datatype wkey = FieldKey string | OpOr

datatype cond =
    Eq qval
  | OpGte jsnum
  | OpGt jsnum
  | OpLte jsnum
  | OpLt jsnum
  | OpIn "string list"
  | OpNotIn "string list"
  | AnyILike "(string \<times> string) list"

datatype attributes = Only "string list" | Exclude "string list"

record query =
  whereClause :: "(wkey \<times> cond) list"
  order :: "(string \<times> string) list option"
  attributes :: "attributes option"
  offset :: "int option"
  limit :: "int option"

text \<open>
  Writing a key of an object replaces the value of an existing key and adds a new key
  at the end; \<open>{ ...a, ...b }\<close> writes the entries of \<open>b\<close> in order over a copy of
  \<open>a\<close>.
\<close>

fun obj_set :: "'k \<Rightarrow> 'v \<Rightarrow> ('k \<times> 'v) list \<Rightarrow> ('k \<times> 'v) list" where
  "obj_set k v [] = [(k, v)]"
| "obj_set k v (p # ps) = (if fst p = k then (k, v) # ps else p # obj_set k v ps)"

definition obj_spread :: "('k \<times> 'v) list \<Rightarrow> ('k \<times> 'v) list \<Rightarrow> ('k \<times> 'v) list" where
  "obj_spread a b = fold (\<lambda>kv obj. obj_set (fst kv) (snd kv) obj) b a"

text \<open>
  The instance: the query string, the plan under construction, and the two options the
  methods read. The constructor starts from \<open>{ where: {} }\<close>; the default of
  \<open>defaultExcludedAttributes\<close> is written in, since no controller passes one.
\<close>

record api_features =
  queryString :: "(string \<times> qval) list"
  query :: query
  searchableFields :: "string list"
  defaultExcludedAttributes :: "string list"

definition APIFeatures :: "(string \<times> qval) list \<Rightarrow> string list \<Rightarrow> api_features" where
  "APIFeatures qs searchable =
     \<lparr> queryString = qs,
       query = \<lparr> whereClause = [], order = None, attributes = None, offset = None, limit = None \<rparr>,
       searchableFields = searchable,
       defaultExcludedAttributes = [''password'', ''deletedAt'', ''createdAt'', ''updatedAt''] \<rparr>"

definition search :: "api_features \<Rightarrow> api_features" where
  "search this =
     (case map_of (queryString this) ''keyword'' of
        None \<Rightarrow> this
      | Some keyword \<Rightarrow>
          if qtruthy (Some keyword) \<and> 0 < length (searchableFields this) then
            (let searchConditions =
                   map (\<lambda>field. (field, ''%'' @ to_string keyword @ ''%'')) (searchableFields this)
             in this\<lparr> query := (query this)\<lparr> whereClause :=
                        obj_spread (whereClause (query this)) [(OpOr, AnyILike searchConditions)] \<rparr> \<rparr>)
          else this)"

definition excludedFields :: "string list" where
  "excludedFields = [''page'', ''sort'', ''limit'', ''fields'', ''keyword'']"

text \<open>The branch chain of \<open>filter\<close> on one value, in the order of the source.\<close>

fun filter_value :: "qval \<Rightarrow> cond" where
  "filter_value (QStr v) =
     (if str_includes ''gte'' v then OpGte (parseFloat (remove_first ''gte'' v))
      else if str_includes ''gt'' v then OpGt (parseFloat (remove_first ''gt'' v))
      else if str_includes ''lte'' v then OpLte (parseFloat (remove_first ''lte'' v))
      else if str_includes ''lt'' v then OpLt (parseFloat (remove_first ''lt'' v))
      else if str_includes ''in'' v then OpIn (split_on CHR '','' (remove_first ''in'' v))
      else if str_includes ''ne'' v then OpNotIn (split_on CHR '','' (remove_first ''ne'' v))
      else Eq (QStr v))"
| "filter_value v = Eq v"

definition filter_qs :: "api_features \<Rightarrow> api_features" where
  "filter_qs this =
     (let queryObj = filter (\<lambda>kv. fst kv \<notin> set excludedFields) (queryString this);
          whereConditions =
            fold (\<lambda>kv obj. obj_set (FieldKey (fst kv)) (filter_value (snd kv)) obj) queryObj []
      in this\<lparr> query := (query this)\<lparr> whereClause :=
                 obj_spread (whereClause (query this)) whereConditions \<rparr> \<rparr>)"

text \<open>
  \<open>sort\<close> and \<open>limitFields\<close> call \<open>split\<close> on the parameter, which only a string
  has: an array or an object there raises a \<open>TypeError\<close>.
\<close>

definition sort_field :: "string \<Rightarrow> string \<times> string" where
  "sort_field field =
     (case field of
        [] \<Rightarrow> ([], ''ASC'')
      | c # r \<Rightarrow> if c = CHR ''-'' then (r, ''DESC'') else (field, ''ASC''))"

definition sort_qs :: "api_features \<Rightarrow> exn + api_features" where
  "sort_qs this =
     (case map_of (queryString this) ''sort'' of
        None \<Rightarrow> Inr (this\<lparr> query := (query this)\<lparr> order := Some [(''createdAt'', ''DESC'')] \<rparr> \<rparr>)
      | Some (QStr s) \<Rightarrow>
          if s = [] then
            Inr (this\<lparr> query := (query this)\<lparr> order := Some [(''createdAt'', ''DESC'')] \<rparr> \<rparr>)
          else
            Inr (this\<lparr> query := (query this)\<lparr> order :=
                   Some (map sort_field (split_on CHR '','' s)) \<rparr> \<rparr>)
      | Some other \<Rightarrow> Inl (TypeError ''split is not a function''))"

definition limitFields :: "api_features \<Rightarrow> exn + api_features" where
  "limitFields this =
     (case map_of (queryString this) ''fields'' of
        None \<Rightarrow>
          Inr (this\<lparr> query := (query this)\<lparr> attributes :=
                 Some (Exclude (defaultExcludedAttributes this)) \<rparr> \<rparr>)
      | Some (QStr s) \<Rightarrow>
          if s = [] then
            Inr (this\<lparr> query := (query this)\<lparr> attributes :=
                   Some (Exclude (defaultExcludedAttributes this)) \<rparr> \<rparr>)
          else
            Inr (this\<lparr> query := (query this)\<lparr> attributes :=
                   Some (Only (map trim (split_on CHR '','' s))) \<rparr> \<rparr>)
      | Some other \<Rightarrow> Inl (TypeError ''split is not a function''))"

text \<open>
  \<open>paginate(resPerPage)\<close>:
  \<open>page = Math.max(parseInt(this.queryString.page, 10) || 1, 1)\<close>,
  \<open>limit = Math.min(parseInt(this.queryString.limit, 10) || resPerPage, 1000)\<close>,
  \<open>offset = (page - 1) * limit\<close>. It has no failing branch. Here the three numbers
  are read as exact integers; \<open>paginate_number\<close> below computes them as doubles.
\<close>

definition page_of :: "(string \<times> qval) list \<Rightarrow> int" where
  "page_of qs = max (or_int (parseInt_param (map_of qs ''page'')) 1) 1"

definition limit_of :: "(string \<times> qval) list \<Rightarrow> int \<Rightarrow> int" where
  "limit_of qs resPerPage = min (or_int (parseInt_param (map_of qs ''limit'')) resPerPage) 1000"

definition paginate :: "int \<Rightarrow> api_features \<Rightarrow> api_features" where
  "paginate resPerPage this =
     (let page = page_of (queryString this);
          lim = limit_of (queryString this) resPerPage;
          off = (page - 1) * lim
      in this\<lparr> query := (query this)\<lparr> offset := Some off, limit := Some lim \<rparr> \<rparr>)"

subsection \<open>paginate in double arithmetic\<close>

text \<open>
  The numbers of \<open>paginate\<close> are doubles. \<open>parseInt\<close> returns \<open>NaN\<close>, an infinity or
  an integer, and the maximum, the minimum, the difference and the product of such
  values are again of that kind, so a double is embedded here as \<open>NaN\<close>, an infinity
  with its sign, or a finite integer with its sign and magnitude (\<open>True\<close> is the minus
  sign, so that \<open>DFin True 0\<close> is the negative zero).
\<close>

datatype dbl = DNaN | DInf bool | DFin bool nat

text \<open>
  Rounding a magnitude to the nearest double, ties to even. \<open>shift_count m\<close> is the
  number of low bits that do not fit into the 53 bits of the significand
  (\<open>9007199254740992\<close> is \<open>2^53\<close>); they are cut off and the rest is rounded up when
  they are more than half of the last kept bit, or exactly half with an odd rest.
\<close>

function shift_count :: "nat \<Rightarrow> nat" where
  "shift_count m = (if m < 9007199254740992 then 0 else Suc (shift_count (m div 2)))"
  by pat_completeness auto
termination
proof (relation "measure id")
  show "wf (measure id)" by simp
next
  fix m :: nat
  assume "\<not> m < 9007199254740992"
  then have "0 < m" by simp
  then have "m div 2 < m" by simp
  then show "(m div 2, m) \<in> measure id" by simp
qed

declare shift_count.simps [simp del]

definition round53 :: "nat \<Rightarrow> nat" where
  "round53 m =
     (let e = shift_count m; q = m div 2 ^ e; r = m mod 2 ^ e in
      if e = 0 then m
      else if 2 ^ (e - 1) < r \<or> (r = 2 ^ (e - 1) \<and> odd q) then (q + 1) * 2 ^ e
      else q * 2 ^ e)"

text \<open>
  The double of an integer given by sign and magnitude: the rounded magnitude, or an
  infinity when the rounding reaches \<open>2^1024\<close>.
\<close>

definition to_double :: "bool \<Rightarrow> nat \<Rightarrow> dbl" where
  "to_double neg m = (let v = round53 m in if 2 ^ 1024 \<le> v then DInf neg else DFin neg v)"

definition signed :: "bool \<Rightarrow> nat \<Rightarrow> int" where
  "signed neg m = (if neg then - int m else int m)"

text \<open>The falsy numbers are \<open>NaN\<close> and the two zeros; \<open>x || dflt\<close>.\<close>

fun falsy :: "dbl \<Rightarrow> bool" where
  "falsy DNaN = True"
| "falsy (DInf s) = False"
| "falsy (DFin s m) = (m = 0)"

definition or_dbl :: "dbl \<Rightarrow> dbl \<Rightarrow> dbl" where
  "or_dbl x dflt = (if falsy x then dflt else x)"

text \<open>\<open>a < b\<close> and \<open>a <= b\<close> on doubles: false whenever an operand is \<open>NaN\<close>.\<close>

fun dbl_less :: "dbl \<Rightarrow> dbl \<Rightarrow> bool" where
  "dbl_less DNaN b = False"
| "dbl_less a DNaN = False"
| "dbl_less (DInf s) (DInf t) = (s \<and> \<not> t)"
| "dbl_less (DInf s) (DFin t n) = s"
| "dbl_less (DFin s m) (DInf t) = (\<not> t)"
| "dbl_less (DFin s m) (DFin t n) = (signed s m < signed t n)"

definition dbl_le :: "dbl \<Rightarrow> dbl \<Rightarrow> bool" where
  "dbl_le a b = (a \<noteq> DNaN \<and> b \<noteq> DNaN \<and> \<not> dbl_less b a)"

text \<open>
  \<open>Math.max\<close> and \<open>Math.min\<close> of two numbers: \<open>NaN\<close> if one of them is; of the two
  zeros the maximum is the positive and the minimum the negative one.
\<close>

definition dmax :: "dbl \<Rightarrow> dbl \<Rightarrow> dbl" where
  "dmax a b =
     (if a = DNaN \<or> b = DNaN then DNaN
      else if dbl_less a b then b
      else if dbl_less b a then a
      else if a = DFin True 0 then b else a)"

definition dmin :: "dbl \<Rightarrow> dbl \<Rightarrow> dbl" where
  "dmin a b =
     (if a = DNaN \<or> b = DNaN then DNaN
      else if dbl_less a b then a
      else if dbl_less b a then b
      else if a = DFin False 0 then b else a)"

text \<open>
  \<open>a - b\<close>: the exact difference, rounded. A zero difference is the positive zero,
  except for the negative zero minus the positive zero.
\<close>

fun dsub :: "dbl \<Rightarrow> dbl \<Rightarrow> dbl" where
  "dsub DNaN b = DNaN"
| "dsub a DNaN = DNaN"
| "dsub (DInf s) (DInf t) = (if s = t then DNaN else DInf s)"
| "dsub (DInf s) (DFin t n) = DInf s"
| "dsub (DFin s m) (DInf t) = DInf (\<not> t)"
| "dsub (DFin s m) (DFin t n) =
     (let r = signed s m - signed t n in
      if r = 0 then DFin (m = 0 \<and> n = 0 \<and> s \<and> \<not> t) 0
      else to_double (r < 0) (nat \<bar>r\<bar>))"

text \<open>
  \<open>a * b\<close>: the exact product, rounded, with the product of the signs; an infinity
  times a zero is \<open>NaN\<close>.
\<close>

fun dmul :: "dbl \<Rightarrow> dbl \<Rightarrow> dbl" where
  "dmul DNaN b = DNaN"
| "dmul a DNaN = DNaN"
| "dmul (DInf s) (DInf t) = DInf (s \<noteq> t)"
| "dmul (DInf s) (DFin t n) = (if n = 0 then DNaN else DInf (s \<noteq> t))"
| "dmul (DFin s m) (DInf t) = (if m = 0 then DNaN else DInf (s \<noteq> t))"
| "dmul (DFin s m) (DFin t n) = to_double (s \<noteq> t) (m * n)"

text \<open>\<open>Number.isInteger\<close>: a finite double of this kind is an integer.\<close>

fun is_integer :: "dbl \<Rightarrow> bool" where
  "is_integer (DFin s m) = True"
| "is_integer d = False"

text \<open>
  \<open>parseInt(string, 10)\<close> as the number it returns: \<open>NaN\<close> without a digit, else the
  double of the signed digits (the negative zero for \<open>-0\<close>).
\<close>

definition parseInt_number :: "string \<Rightarrow> dbl" where
  "parseInt_number s =
     (let s1 = dropWhile is_space s;
          neg = (case s1 of [] \<Rightarrow> False | c # r \<Rightarrow> c = CHR ''-'');
          s2 = (case s1 of [] \<Rightarrow> [] | c # r \<Rightarrow> if c = CHR ''-'' \<or> c = CHR ''+'' then r else s1);
          ds = takeWhile is_digit s2
      in if ds = [] then DNaN else to_double neg (digits_value ds))"

definition parseInt_number_param :: "qval option \<Rightarrow> dbl" where
  "parseInt_number_param v =
     (case v of None \<Rightarrow> parseInt_number ''undefined'' | Some q \<Rightarrow> parseInt_number (to_string q))"

text \<open>
  \<open>paginate(resPerPage)\<close> on doubles: the page, the limit, and the pair of the offset
  and the limit that the method writes into the plan.
\<close>

definition page_number :: "(string \<times> qval) list \<Rightarrow> dbl" where
  "page_number qs =
     dmax (or_dbl (parseInt_number_param (map_of qs ''page'')) (DFin False 1)) (DFin False 1)"

definition limit_number :: "(string \<times> qval) list \<Rightarrow> dbl \<Rightarrow> dbl" where
  "limit_number qs resPerPage =
     dmin (or_dbl (parseInt_number_param (map_of qs ''limit'')) resPerPage) (DFin False 1000)"

definition paginate_number :: "dbl \<Rightarrow> (string \<times> qval) list \<Rightarrow> dbl \<times> dbl" where
  "paginate_number resPerPage qs =
     (let page = page_number qs;
          lim = limit_number qs resPerPage;
          off = dmul (dsub page (DFin False 1)) lim
      in (off, lim))"

section \<open>Controllers/classe.js\<close>

text \<open>
  The body of a successful listing:
  \<open>{ success: true, count, totalCount, resPerPage, classes }\<close>.
\<close>

record 'row listing =
  count :: nat
  totalCount :: nat
  resPerPage :: int
  classes :: "'row list"

text \<open>
  The first part of \<open>ClasseController.getAll\<close>: the role filter. The result is the
  \<open>where\<close> object of the caller's role, or \<open>None\<close> where the method returns the empty
  listing at once (a Teacher whose row is missing or has no school). \<open>findByPk\<close> stands for
  \<open>db.User.findByPk\<close>.
\<close>

definition role_where ::
  "(int \<Rightarrow> exn + user_row option) \<Rightarrow> identity option \<Rightarrow> exn + (wkey \<times> cond) list option" where
  "role_where findByPk auth =
     (case auth of
        None \<Rightarrow> Inr (Some [])
      | Some a \<Rightarrow>
          if userRole a = ''Teacher'' then
            (case findByPk (userId a) of
               Inl err \<Rightarrow> Inl err
             | Inr None \<Rightarrow> Inr None
             | Inr (Some user) \<Rightarrow>
                 (case ecoleId user of
                    None \<Rightarrow> Inr None
                  | Some school \<Rightarrow>
                      if school = [] then Inr None
                      else Inr (Some [(FieldKey ''ecoleId'', Eq (QStr school))])))
          else Inr (Some []))"

text \<open>
  The plan handed to \<open>execute\<close>: the chain \<open>search().filter().sort().limitFields()
  .paginate(resPerPage)\<close> on \<open>request.query\<close> with the searchable field \<open>libelle\<close>, then
  \<open>apiFeatures.query.where = { ...apiFeatures.query.where, ...where }\<close>.
\<close>

definition classes_features :: "(string \<times> qval) list \<Rightarrow> int \<Rightarrow> exn + api_features" where
  "classes_features qs perPage =
     (case sort_qs (filter_qs (search (APIFeatures qs [''libelle'']))) of
        Inl err \<Rightarrow> Inl err
      | Inr ordered \<Rightarrow>
          (case limitFields ordered of
             Inl err \<Rightarrow> Inl err
           | Inr limited \<Rightarrow> Inr (paginate perPage limited)))"

definition merge_where :: "api_features \<Rightarrow> (wkey \<times> cond) list \<Rightarrow> query" where
  "merge_where apiFeatures wh =
     (query apiFeatures)\<lparr> whereClause := obj_spread (whereClause (query apiFeatures)) wh \<rparr>"

text \<open>\<open>parseInt(process.env.RES_PER_PAGE, 10) || 10\<close>.\<close>

definition env_resPerPage :: "string option \<Rightarrow> int" where
  "env_resPerPage env =
     or_int (case env of None \<Rightarrow> parseInt ''undefined'' | Some s \<Rightarrow> parseInt s) 10"

text \<open>
  \<open>ClasseController.getAll\<close>. \<open>env\<close> is \<open>process.env.RES_PER_PAGE\<close>; \<open>countRows\<close>
  stands for \<open>this.model.count({ where })\<close> and \<open>findAll\<close> for \<open>execute\<close>, that is
  \<open>this.model.findAll(this.query)\<close>.
\<close>

definition getAll ::
  "string option \<Rightarrow> (int \<Rightarrow> exn + user_row option) \<Rightarrow> ((wkey \<times> cond) list \<Rightarrow> exn + nat)
     \<Rightarrow> (query \<Rightarrow> exn + 'row list) \<Rightarrow> identity option \<Rightarrow> (string \<times> qval) list
     \<Rightarrow> 'row listing outcome" where
  "getAll env findByPk countRows findAll auth qs =
     (let perPage = env_resPerPage env in
      case role_where findByPk auth of
        Inl err \<Rightarrow> Next (handleError err ''Erreur lors de la recuperation des classes.'')
      | Inr None \<Rightarrow>
          Respond 200 \<lparr> count = 0, totalCount = 0, resPerPage = perPage, classes = [] \<rparr>
      | Inr (Some wh) \<Rightarrow>
          (case countRows wh of
             Inl err \<Rightarrow> Next (handleError err ''Erreur lors de la recuperation des classes.'')
           | Inr classeCount \<Rightarrow>
               (case classes_features qs perPage of
                  Inl err \<Rightarrow> Next (handleError err ''Erreur lors de la recuperation des classes.'')
                | Inr apiFeatures \<Rightarrow>
                    (case findAll (merge_where apiFeatures wh) of
                       Inl err \<Rightarrow>
                         Next (handleError err ''Erreur lors de la recuperation des classes.'')
                     | Inr rows \<Rightarrow>
                         Respond 200 \<lparr> count = length rows, totalCount = classeCount,
                                       resPerPage = perPage, classes = rows \<rparr>))))"

section \<open>Properties of the average computation\<close>

lemma reduce_total_sum:
  "list_all (\<lambda>n. evaluationType n \<noteq> None) ns \<Longrightarrow>
   reduce_total ns s =
     Inr (s + (\<Sum>n\<leftarrow>ns. note_value n * coeficient (the (evaluationType n))))"
  by (induction ns arbitrary: s) (auto simp: algebra_simps)

lemma reduce_totalCoef_sum:
  "list_all (\<lambda>n. evaluationType n \<noteq> None) ns \<Longrightarrow>
   reduce_totalCoef ns s = Inr (s + (\<Sum>n\<leftarrow>ns. coeficient (the (evaluationType n))))"
  by (induction ns arbitrary: s) (auto simp: algebra_simps)

text \<open>
  A run that passes validation and fetches a non-empty list of joined notes answers with
  the weighted average and leaves it in the table, under the key of the \<open>where\<close> clause.
\<close>

lemma calculateMoyenne_accepted:
  assumes "validate body moyenneCreateSchema = Inr ()"
    and "findAll (js_get body ''eleve'') (js_get body ''compos'') = Inr ns"
    and "ns \<noteq> []"
    and "list_all (\<lambda>n. evaluationType n \<noteq> None) ns"
  shows "calculateMoyenne findAll tbl body =
    (let k = (js_get body ''eleve'', js_get body ''compos'');
         sw = (\<Sum>n\<leftarrow>ns. note_value n * coeficient (the (evaluationType n)));
         sc = (\<Sum>n\<leftarrow>ns. coeficient (the (evaluationType n)));
         avg = (if sc = 0 then 0 else sw / sc)
     in (Respond (if tbl k = None then 201 else 200)
           \<lparr> matriculEleve = fst k, codeCompo = snd k, moyenne = avg \<rparr>,
         tbl(k \<mapsto> avg)))"
  using assms
  by (cases "tbl (js_get body ''eleve'', js_get body ''compos'')")
     (simp_all add: calculateMoyenne_def Let_def reduce_total_sum reduce_totalCoef_sum
        findOrCreate_def record_update_def)



text \<open>
  A body that the schema of the average route accepts has none of the keys \<open>eleve\<close> and
  \<open>compos\<close> that the controller reads: unknown keys are rejected.
\<close>

lemma joi_unknown_nil:
  "joi_unknown schema data = [] \<Longrightarrow> k \<notin> set (map fst schema) \<Longrightarrow> map_of data k = None"
  by (induction data) (auto split: if_splits)

lemma accepted_body_has_no_pair:
  assumes "validate body moyenneCreateSchema = Inr ()"
  shows "js_get body ''eleve'' = JUndefined \<and> js_get body ''compos'' = JUndefined"
proof -
  from assms have "joi_validate moyenneCreateSchema body = []"
    by (simp add: validate_def Let_def split: if_splits)
  then have u: "joi_unknown moyenneCreateSchema body = []"
    by (simp add: joi_validate_def)
  have "map_of body ''eleve'' = None"
    by (rule joi_unknown_nil [OF u]) (simp add: moyenneCreateSchema_def)
  moreover have "map_of body ''compos'' = None"
    by (rule joi_unknown_nil [OF u]) (simp add: moyenneCreateSchema_def)
  ultimately show ?thesis by (simp add: js_get_def)
qed

text \<open>
  Whatever the data and the schema, \<open>validate\<close> either returns or throws the
  \<open>TypeError\<close>; it never throws the \<open>VALIDATION_ERROR\<close> it builds.
\<close>

lemma validate_never_validation_error:
  "validate data schema = Inr () \<or> validate data schema = Inl (TypeError ''is not a constructor'')"
  by (simp add: validate_def Let_def new_on_instance_def)

text \<open>
  Two runs in a row that both pass validation and fetch the same non-empty list: the
  second finds the row of the first, answers 200 and stores the same value.
\<close>

lemma calculateMoyenne_twice_when_accepted:
  assumes "validate body moyenneCreateSchema = Inr ()"
    and "findAll (js_get body ''eleve'') (js_get body ''compos'') = Inr ns"
    and "ns \<noteq> []"
    and "list_all (\<lambda>n. evaluationType n \<noteq> None) ns"
    and "tbl (js_get body ''eleve'', js_get body ''compos'') = None"
  shows "\<exists>row tbl1.
      calculateMoyenne findAll tbl body = (Respond 201 row, tbl1)
    \<and> calculateMoyenne findAll tbl1 body = (Respond 200 row, tbl1)"
  using calculateMoyenne_accepted [of body findAll ns] assms by (simp add: Let_def)

text \<open>
  C3. The request \<open>{ eleve: 'E1', compos: 'C1' }\<close> names a pair for which the data layer
  returns no note. The schema declares \<open>matriculEleve\<close>, \<open>codeCompo\<close> and \<open>moyenne\<close>
  and rejects the two keys the controller reads; the rejection surfaces as the
  \<open>TypeError\<close> of \<open>validate\<close>, which \<open>handleError\<close> turns into \<open>SERVER_ERROR\<close> with
  status 500. The run does not end with \<open>NO_GRADES\<close> and 404; the table is unchanged.
  The middleware that the route puts in front of the controller rejects the same body
  with the same \<open>TypeError\<close>.
\<close>

theorem calculateMoyenne_no_notes_pair_request:
  "calculateMoyenne (\<lambda>eleve compos. Inr []) tbl [(''eleve'', JStr ''E1''), (''compos'', JStr ''C1'')]
   = (Next \<lparr> message = ''Erreur lors du calcul de la moyenne.'', code = JStr ''SERVER_ERROR'',
              statusCode = JNum 500, details = None \<rparr>, tbl)
 \<and> middleware moyenneCreateSchema [(''eleve'', JStr ''E1''), (''compos'', JStr ''C1'')]
   = NextErr (TypeError ''is not a constructor'')"
  by (simp add: calculateMoyenne_def middleware_def validate_def joi_validate_def
       moyenneCreateSchema_def js_get_def Let_def new_on_instance_def handleError_def
       ErrorResponse_def)

text \<open>
  C6. Two runs in a row for the request \<open>{ eleve: 'E1', compos: 'C1' }\<close>, with the notes
  (8, coefficient 2) and (6, coefficient 1) on record and no average stored: both end
  with \<open>SERVER_ERROR\<close> and status 500, and no average is stored by either. Neither 201
  nor 200 is answered.
\<close>

theorem calculateMoyenne_twice_pair_request:
  "calculateMoyenne
     (\<lambda>eleve compos.
        Inr [\<lparr>note_value = 8, evaluationType = Some \<lparr>codeEva = ''EV1'', coeficient = 2\<rparr>\<rparr>,
             \<lparr>note_value = 6, evaluationType = Some \<lparr>codeEva = ''EV2'', coeficient = 1\<rparr>\<rparr>])
     Map.empty [(''eleve'', JStr ''E1''), (''compos'', JStr ''C1'')]
   = (Next \<lparr> message = ''Erreur lors du calcul de la moyenne.'', code = JStr ''SERVER_ERROR'',
              statusCode = JNum 500, details = None \<rparr>, Map.empty)
 \<and> calculateMoyenne
     (\<lambda>eleve compos.
        Inr [\<lparr>note_value = 8, evaluationType = Some \<lparr>codeEva = ''EV1'', coeficient = 2\<rparr>\<rparr>,
             \<lparr>note_value = 6, evaluationType = Some \<lparr>codeEva = ''EV2'', coeficient = 1\<rparr>\<rparr>])
     (snd (calculateMoyenne
        (\<lambda>eleve compos.
           Inr [\<lparr>note_value = 8, evaluationType = Some \<lparr>codeEva = ''EV1'', coeficient = 2\<rparr>\<rparr>,
                \<lparr>note_value = 6, evaluationType = Some \<lparr>codeEva = ''EV2'', coeficient = 1\<rparr>\<rparr>])
        Map.empty [(''eleve'', JStr ''E1''), (''compos'', JStr ''C1'')]))
     [(''eleve'', JStr ''E1''), (''compos'', JStr ''C1'')]
   = (Next \<lparr> message = ''Erreur lors du calcul de la moyenne.'', code = JStr ''SERVER_ERROR'',
              statusCode = JNum 500, details = None \<rparr>, Map.empty)"
  by (simp add: calculateMoyenne_def validate_def joi_validate_def moyenneCreateSchema_def
       js_get_def Let_def new_on_instance_def handleError_def ErrorResponse_def)

section \<open>Properties of note creation\<close>

text \<open>
  C4. A create-Note body that is well formed but for its value 10.5, or -1: the schema
  reports the value, \<open>validate\<close> throws the \<open>TypeError\<close> instead of the
  \<open>VALIDATION_ERROR\<close> of status 400, the route middleware passes that \<open>TypeError\<close> on,
  and the controller ends with \<open>SERVER_ERROR\<close> and status 500. The store is not touched
  and the value is not clamped.
\<close>

theorem createNote_out_of_range:
  "joi_validate noteCreateSchema
     [(''matriculEleve'', JStr ''E1''), (''codeEva'', JStr ''EV1''),
      (''codeCompo'', JStr ''C1''), (''note'', JNum (21 / 2))] = [(''note'', NumberMax)]
 \<and> validate
     [(''matriculEleve'', JStr ''E1''), (''codeEva'', JStr ''EV1''),
      (''codeCompo'', JStr ''C1''), (''note'', JNum (21 / 2))] noteCreateSchema
   = Inl (TypeError ''is not a constructor'')
 \<and> middleware noteCreateSchema
     [(''matriculEleve'', JStr ''E1''), (''codeEva'', JStr ''EV1''),
      (''codeCompo'', JStr ''C1''), (''note'', JNum (21 / 2))]
   = NextErr (TypeError ''is not a constructor'')
 \<and> createNote create st
     [(''matriculEleve'', JStr ''E1''), (''codeEva'', JStr ''EV1''),
      (''codeCompo'', JStr ''C1''), (''note'', JNum (21 / 2))]
   = (Next \<lparr> message = ''Erreur lors de la creation de la note.'', code = JStr ''SERVER_ERROR'',
              statusCode = JNum 500, details = None \<rparr>, st)
 \<and> createNote create st
     [(''matriculEleve'', JStr ''E1''), (''codeEva'', JStr ''EV1''),
      (''codeCompo'', JStr ''C1''), (''note'', JNum (- 1))]
   = (Next \<lparr> message = ''Erreur lors de la creation de la note.'', code = JStr ''SERVER_ERROR'',
              statusCode = JNum 500, details = None \<rparr>, st)"
  by (simp add: createNote_def middleware_def validate_def joi_validate_def noteCreateSchema_def
       js_get_def Let_def new_on_instance_def handleError_def ErrorResponse_def)

section \<open>Properties of the authorization gate\<close>

text \<open>
  C5. With \<open>ownershipRequired\<close> set, a custom predicate that grants ownership, and no
  model, \<open>authorize\<close> does not consult the predicate: it takes the configuration-error
  branch. The error is built with 500 in the place of the code and the
  \<open>{ code: 'AUTH_CONFIG_ERROR', ... }\<close> object in the place of the status, so the reply
  passes that object to \<open>res.status\<close> and carries the code 500. The same reply is given
  when neither a model nor a predicate is configured.
\<close>

theorem authorize_predicate_without_model:
  "authorize [] \<lparr> ownershipRequired = True, ownerField = None, idParam = None,
                  isOwner = OwnerFn (\<lambda>auth resourceId. Inr True), model = None \<rparr> auth params
   = Reply (JObj [(''code'', JStr ''AUTH_CONFIG_ERROR''),
                  (''message'', JStr ''Modele Sequelize ou fonction isOwner manquante dans les options pour la verification de propriete.'')])
       (JNum 500)
       ''Configuration d autorisation invalide: Modele ou fonction de propriete requis.''
 \<and> authorize [] \<lparr> ownershipRequired = True, ownerField = None, idParam = None,
                  isOwner = NoOwnerCheck, model = None \<rparr> auth params
   = Reply (JObj [(''code'', JStr ''AUTH_CONFIG_ERROR''),
                  (''message'', JStr ''Modele Sequelize ou fonction isOwner manquante dans les options pour la verification de propriete.'')])
       (JNum 500)
       ''Configuration d autorisation invalide: Modele ou fonction de propriete requis.''"
  by (simp add: authorize_def owner_authorized_def authorize_catch_def ErrorResponse_def Let_def)

text \<open>
  With a model configured, the custom predicate is consulted and its verdict decides.
\<close>

lemma authorize_predicate_with_model:
  "authorize [] \<lparr> ownershipRequired = True, ownerField = fld, idParam = ip,
                  isOwner = OwnerFn check, model = Some m \<rparr> auth params
   = (case check auth (js_get params (or_default ip ''id'')) of
        Inl error \<Rightarrow> authorize_catch error
      | Inr verdict \<Rightarrow>
          if verdict then NextPlain
          else Reply (JNum 403) (JStr ''OWNERSHIP_REQUIRED'')
                 ''Vous n etes pas autorise a effectuer cette action sur cette ressource.'')"
  by (simp add: authorize_def owner_authorized_def Let_def split: sum.splits)

text \<open>
  C8. \<open>authenticate\<close> answers 401 with \<open>AUTH_REQUIRED\<close> when the header yields no token;
  with a token and a configured secret, it answers 401 with \<open>TOKEN_EXPIRED\<close> when the
  verification throws \<open>TokenExpiredError\<close>, 401 with \<open>TOKEN_MALFORMED\<close> when it throws
  \<open>JsonWebTokenError\<close>, 401 with \<open>USER_NOT_FOUND\<close> when the token verifies and the user
  is not in the store, and otherwise calls \<open>next\<close> with the user's id, name, role and
  school attached.
\<close>

theorem authenticate_outcomes:
  "(token_missing (bearer_token h) \<longrightarrow>
      authenticate secret verify findByPk h
        = Reply (JNum 401) (JStr ''AUTH_REQUIRED'') ''Authentification requise. Aucun token fourni.'')
 \<and> (bearer_token h = Some t \<and> t \<noteq> [] \<and> secret = Some s \<and> s \<noteq> [] \<longrightarrow>
      (verify t s = Inl (LibError ''TokenExpiredError'') \<longrightarrow>
         authenticate secret verify findByPk h
           = Reply (JNum 401) (JStr ''TOKEN_EXPIRED'')
               ''Le token d authentification a expire. Veuillez vous reconnecter.'')
    \<and> (verify t s = Inl (LibError ''JsonWebTokenError'') \<longrightarrow>
         authenticate secret verify findByPk h
           = Reply (JNum 401) (JStr ''TOKEN_MALFORMED'')
               ''Le token d authentification est malforme ou invalide.'')
    \<and> (verify t s = Inr decoded \<and> findByPk (js_get decoded ''userId'') = Inr None \<longrightarrow>
         authenticate secret verify findByPk h
           = Reply (JNum 401) (JStr ''USER_NOT_FOUND'')
               ''Compte utilisateur introuvable ou desactive.'')
    \<and> (verify t s = Inr decoded \<and> findByPk (js_get decoded ''userId'') = Inr (Some user) \<longrightarrow>
         authenticate secret verify findByPk h
           = NextWith \<lparr> userId = userId user, username = username user,
                        userRole = userRole user, ecoleId = ecoleId user \<rparr>))"
  by (auto simp: authenticate_def authenticate_try_def authenticate_catch_def token_missing_def
       split: option.splits)

theorem authenticate_outcomes_witness:
  "authenticate (Some ''k'')
     (\<lambda>t s. if t = ''old'' then Inl (LibError ''TokenExpiredError'')
            else if t = ''bad'' then Inl (LibError ''JsonWebTokenError'')
            else if t = ''gone'' then Inr [(''userId'', JNum 9)]
            else Inr [(''userId'', JNum 1)])
     (\<lambda>pk. if pk = JNum 1
           then Inr (Some \<lparr> userId = 1, username = ''awa'', userRole = ''Teacher'',
                             ecoleId = Some ''EC001'', lastLogin = JNull \<rparr>)
           else Inr None)
     None
   = Reply (JNum 401) (JStr ''AUTH_REQUIRED'') ''Authentification requise. Aucun token fourni.''
 \<and> authenticate (Some ''k'')
     (\<lambda>t s. if t = ''old'' then Inl (LibError ''TokenExpiredError'')
            else if t = ''bad'' then Inl (LibError ''JsonWebTokenError'')
            else if t = ''gone'' then Inr [(''userId'', JNum 9)]
            else Inr [(''userId'', JNum 1)])
     (\<lambda>pk. if pk = JNum 1
           then Inr (Some \<lparr> userId = 1, username = ''awa'', userRole = ''Teacher'',
                             ecoleId = Some ''EC001'', lastLogin = JNull \<rparr>)
           else Inr None)
     (Some ''Bearer old'')
   = Reply (JNum 401) (JStr ''TOKEN_EXPIRED'')
       ''Le token d authentification a expire. Veuillez vous reconnecter.''
 \<and> authenticate (Some ''k'')
     (\<lambda>t s. if t = ''old'' then Inl (LibError ''TokenExpiredError'')
            else if t = ''bad'' then Inl (LibError ''JsonWebTokenError'')
            else if t = ''gone'' then Inr [(''userId'', JNum 9)]
            else Inr [(''userId'', JNum 1)])
     (\<lambda>pk. if pk = JNum 1
           then Inr (Some \<lparr> userId = 1, username = ''awa'', userRole = ''Teacher'',
                             ecoleId = Some ''EC001'', lastLogin = JNull \<rparr>)
           else Inr None)
     (Some ''Bearer bad'')
   = Reply (JNum 401) (JStr ''TOKEN_MALFORMED'')
       ''Le token d authentification est malforme ou invalide.''
 \<and> authenticate (Some ''k'')
     (\<lambda>t s. if t = ''old'' then Inl (LibError ''TokenExpiredError'')
            else if t = ''bad'' then Inl (LibError ''JsonWebTokenError'')
            else if t = ''gone'' then Inr [(''userId'', JNum 9)]
            else Inr [(''userId'', JNum 1)])
     (\<lambda>pk. if pk = JNum 1
           then Inr (Some \<lparr> userId = 1, username = ''awa'', userRole = ''Teacher'',
                             ecoleId = Some ''EC001'', lastLogin = JNull \<rparr>)
           else Inr None)
     (Some ''Bearer gone'')
   = Reply (JNum 401) (JStr ''USER_NOT_FOUND'') ''Compte utilisateur introuvable ou desactive.''
 \<and> authenticate (Some ''k'')
     (\<lambda>t s. if t = ''old'' then Inl (LibError ''TokenExpiredError'')
            else if t = ''bad'' then Inl (LibError ''JsonWebTokenError'')
            else if t = ''gone'' then Inr [(''userId'', JNum 9)]
            else Inr [(''userId'', JNum 1)])
     (\<lambda>pk. if pk = JNum 1
           then Inr (Some \<lparr> userId = 1, username = ''awa'', userRole = ''Teacher'',
                             ecoleId = Some ''EC001'', lastLogin = JNull \<rparr>)
           else Inr None)
     (Some ''Bearer good'')
   = NextWith \<lparr> userId = 1, username = ''awa'', userRole = ''Teacher'', ecoleId = Some ''EC001'' \<rparr>"
proof -
  let ?v = "\<lambda>t s. if t = ''old'' then Inl (LibError ''TokenExpiredError'')
            else if t = ''bad'' then Inl (LibError ''JsonWebTokenError'')
            else if t = ''gone'' then Inr [(''userId'', JNum 9)]
            else Inr [(''userId'', JNum (1::rat))]"
  let ?f = "\<lambda>pk. if pk = JNum 1
           then Inr (Some \<lparr> userId = 1, username = ''awa'', userRole = ''Teacher'',
                             ecoleId = Some ''EC001'', lastLogin = JNull \<rparr>)
           else Inr None"
  let ?u = "\<lparr> userId = 1, username = ''awa'', userRole = ''Teacher'',
                             ecoleId = Some ''EC001'', lastLogin = JNull \<rparr>"
  have b: "bearer_token None = None" "bearer_token (Some ''Bearer old'') = Some ''old''"
    "bearer_token (Some ''Bearer bad'') = Some ''bad''"
    "bearer_token (Some ''Bearer gone'') = Some ''gone''"
    "bearer_token (Some ''Bearer good'') = Some ''good''"
    by (simp_all add: bearer_token_def)
  note T = authenticate_outcomes [where secret = "Some ''k''" and verify = ?v and findByPk = ?f
      and s = "''k''"]
  have 1: "authenticate (Some ''k'') ?v ?f None
     = Reply (JNum 401) (JStr ''AUTH_REQUIRED'') ''Authentification requise. Aucun token fourni.''"
    using T [where h = None] by (simp add: b token_missing_def)
  have 2: "authenticate (Some ''k'') ?v ?f (Some ''Bearer old'')
     = Reply (JNum 401) (JStr ''TOKEN_EXPIRED'')
       ''Le token d authentification a expire. Veuillez vous reconnecter.''"
    using T [where h = "Some ''Bearer old''" and t = "''old''"] by (simp add: b)
  have 3: "authenticate (Some ''k'') ?v ?f (Some ''Bearer bad'')
     = Reply (JNum 401) (JStr ''TOKEN_MALFORMED'')
       ''Le token d authentification est malforme ou invalide.''"
    using T [where h = "Some ''Bearer bad''" and t = "''bad''"] by (simp add: b)
  have 4: "authenticate (Some ''k'') ?v ?f (Some ''Bearer gone'')
     = Reply (JNum 401) (JStr ''USER_NOT_FOUND'') ''Compte utilisateur introuvable ou desactive.''"
    using T [where h = "Some ''Bearer gone''" and t = "''gone''"
        and decoded = "[(''userId'', JNum 9)]"] by (simp add: b js_get_def)
  have 5: "authenticate (Some ''k'') ?v ?f (Some ''Bearer good'')
     = NextWith \<lparr> userId = 1, username = ''awa'', userRole = ''Teacher'', ecoleId = Some ''EC001'' \<rparr>"
    using T [where h = "Some ''Bearer good''" and t = "''good''"
        and decoded = "[(''userId'', JNum 1)]" and user = ?u] by (simp add: b js_get_def)
  from 1 2 3 4 5 show ?thesis by simp
qed

section \<open>Properties of the query builder\<close>

text \<open>
  C2. The role filter \<open>?userRole=Administrator\<close> carries no operator, yet its value
  contains the letters \<open>in\<close>: \<open>filter\<close> takes them out and builds a membership
  condition over \<open>Admistrator\<close> instead of the equality with \<open>Administrator\<close>. The
  city \<open>Kinshasa\<close> is read the same way.
\<close>

theorem filter_plain_value_misparsed:
  "whereClause (query (filter_qs (APIFeatures [(''userRole'', QStr ''Administrator'')] [])))
     = [(FieldKey ''userRole'', OpIn [''Admistrator''])]
 \<and> filter_value (QStr ''Kinshasa'') = OpIn [''Kshasa'']"
  by (simp add: filter_qs_def APIFeatures_def excludedFields_def obj_spread_def Let_def)

text \<open>
  The readings of the operator forms: a token in front of its operand gives the
  comparison, the membership or the exclusion, and a value in which none of the six
  letter groups occurs is compared for equality. The reserved keys are left out.
\<close>

lemma filter_examples:
  "filter_value (QStr ''gte18'') = OpGte (Num 18)"
  "filter_value (QStr ''in Teacher,Administrator'') = OpIn ['' Teacher'', ''Administrator'']"
  "filter_value (QStr ''neArchived'') = OpNotIn [''Archived'']"
  "filter_value (QStr ''Teacher'') = Eq (QStr ''Teacher'')"
  by (simp_all add: parseFloat_def is_space_def is_digit_def digits_value_def digit_value_def Let_def)

lemma filter_reserved:
  "whereClause (query (filter_qs (APIFeatures
      [(''page'', QStr ''2''), (''sort'', QStr ''-libelle''), (''limit'', QStr ''5''),
       (''fields'', QStr ''libelle''), (''keyword'', QStr ''CM''), (''niveau'', QStr ''CM2''),
       (''age'', QStr ''lte12'')] []))) 
   = [(FieldKey ''niveau'', Eq (QStr ''CM2'')), (FieldKey ''age'', OpLte (Num 12))]"
  by (simp add: filter_qs_def APIFeatures_def excludedFields_def obj_spread_def Let_def
      parseFloat_def is_space_def is_digit_def digits_value_def digit_value_def)

lemma parseInt_undefined: "parseInt ''undefined'' = None"
  by (simp add: parseInt_def is_space_def is_digit_def Let_def)



text \<open>
  C10. When the limit parameter parses to a negative integer n, the plan's limit is n
  itself and its offset is (page - 1) times n, which is negative for every page above 1;
  when it parses to 0, the limit falls back to the default page size (under the cap of
  1000).
\<close>

theorem paginate_negative_limit:
  "(parseInt_param (map_of (queryString this) ''limit'') = Some n \<and> n < 0 \<longrightarrow>
      limit (query (paginate d this)) = Some n
    \<and> offset (query (paginate d this)) = Some ((page_of (queryString this) - 1) * n)
    \<and> (1 < page_of (queryString this) \<longrightarrow> (page_of (queryString this) - 1) * n < 0))
 \<and> (parseInt_param (map_of (queryString this) ''limit'') = Some 0 \<longrightarrow>
      limit (query (paginate d this)) = Some (min d 1000)
    \<and> (d \<le> 1000 \<longrightarrow> limit (query (paginate d this)) = Some d))"
  by (auto simp: paginate_def limit_of_def or_int_def Let_def mult_pos_neg)

theorem paginate_negative_limit_witness:
  "limit (query (paginate 10 (APIFeatures [(''limit'', QStr ''-5''), (''page'', QStr ''3'')] []))) = Some (- 5)
 \<and> offset (query (paginate 10 (APIFeatures [(''limit'', QStr ''-5''), (''page'', QStr ''3'')] []))) = Some (- 10)
 \<and> limit (query (paginate 10 (APIFeatures [(''limit'', QStr ''0'')] []))) = Some 10"
proof -
  have a: "parseInt_param (map_of (queryString (APIFeatures [(''limit'', QStr ''-5''), (''page'', QStr ''3'')] [])) ''limit'') = Some (- 5)"
    by (simp add: APIFeatures_def parseInt_param_def parseInt_def is_space_def is_digit_def
         digits_value_def digit_value_def Let_def)
  have pg: "page_of (queryString (APIFeatures [(''limit'', QStr ''-5''), (''page'', QStr ''3'')] [])) = 3"
    by (simp add: APIFeatures_def page_of_def or_int_def parseInt_param_def parseInt_def is_space_def is_digit_def
         digits_value_def digit_value_def Let_def)
  have b: "parseInt_param (map_of (queryString (APIFeatures [(''limit'', QStr ''0'')] [])) ''limit'') = Some 0"
    by (simp add: APIFeatures_def parseInt_param_def parseInt_def is_space_def is_digit_def
         digits_value_def digit_value_def Let_def)
  from paginate_negative_limit [of "APIFeatures [(''limit'', QStr ''-5''), (''page'', QStr ''3'')] []" "- 5" 10] a pg
  have 1: "limit (query (paginate 10 (APIFeatures [(''limit'', QStr ''-5''), (''page'', QStr ''3'')] []))) = Some (- 5)"
    and 2: "offset (query (paginate 10 (APIFeatures [(''limit'', QStr ''-5''), (''page'', QStr ''3'')] []))) = Some (- 10)"
    by simp_all
  from paginate_negative_limit [of "APIFeatures [(''limit'', QStr ''0'')] []" 0 10] b
  have 3: "limit (query (paginate 10 (APIFeatures [(''limit'', QStr ''0'')] []))) = Some 10"
    by simp
  from 1 2 3 show ?thesis by simp
qed

section \<open>Properties of the class listing\<close>

lemma map_of_obj_set: "map_of (obj_set k v xs) = (map_of xs)(k \<mapsto> v)"
  by (induction xs) (auto simp: fun_eq_iff)

lemma whereClause_sort: "sort_qs f = Inr g \<Longrightarrow> whereClause (query g) = whereClause (query f)"
  by (auto simp: sort_qs_def split: option.splits qval.splits if_splits)

lemma whereClause_limitFields: "limitFields f = Inr g \<Longrightarrow> whereClause (query g) = whereClause (query f)"
  by (auto simp: limitFields_def split: option.splits qval.splits if_splits)

lemma whereClause_paginate: "whereClause (query (paginate n f)) = whereClause (query f)"
  by (simp add: paginate_def Let_def)

lemma classes_features_where:
  "classes_features qs n = Inr f \<Longrightarrow>
   whereClause (query f) = whereClause (query (filter_qs (search (APIFeatures qs [''libelle'']))))"
  by (auto simp: classes_features_def whereClause_paginate split: sum.splits
      dest!: whereClause_sort whereClause_limitFields)

text \<open>
  C7. In \<open>getAll\<close>, for a Teacher whose row carries a school, the query that is executed
  has the \<open>where\<close> object of the query builder with the key \<open>ecoleId\<close> set to that
  school: every other key keeps the condition the builder gave it. A Teacher whose row
  has no school gets status 200 with count 0 and no rows. For any other role the
  executed \<open>where\<close> object is the builder's, unchanged.
\<close>

theorem getAll_teacher_scope:
  "(auth = Some a \<and> userRole a = ''Teacher'' \<and> findByPk (userId a) = Inr (Some u)
      \<and> ecoleId u = Some s \<and> s \<noteq> []
      \<and> countRows [(FieldKey ''ecoleId'', Eq (QStr s))] = Inr n
      \<and> classes_features qs (env_resPerPage env) = Inr f \<longrightarrow>
      getAll env findByPk countRows findAll auth qs =
        (case findAll (merge_where f [(FieldKey ''ecoleId'', Eq (QStr s))]) of
           Inl err \<Rightarrow> Next (handleError err ''Erreur lors de la recuperation des classes.'')
         | Inr rows \<Rightarrow> Respond 200 \<lparr> count = length rows, totalCount = n,
                                      resPerPage = env_resPerPage env, classes = rows \<rparr>)
    \<and> map_of (whereClause (merge_where f [(FieldKey ''ecoleId'', Eq (QStr s))])) =
        (map_of (whereClause (query (filter_qs (search (APIFeatures qs [''libelle'']))))))
          (FieldKey ''ecoleId'' \<mapsto> Eq (QStr s)))
 \<and> (auth = Some a \<and> userRole a = ''Teacher'' \<and> findByPk (userId a) = Inr (Some u)
      \<and> (ecoleId u = None \<or> ecoleId u = Some []) \<longrightarrow>
      getAll env findByPk countRows findAll auth qs =
        Respond 200 \<lparr> count = 0, totalCount = 0, resPerPage = env_resPerPage env, classes = [] \<rparr>)
 \<and> (auth = Some a \<and> userRole a \<noteq> ''Teacher''
      \<and> countRows [] = Inr n
      \<and> classes_features qs (env_resPerPage env) = Inr f \<longrightarrow>
      getAll env findByPk countRows findAll auth qs =
        (case findAll (merge_where f []) of
           Inl err \<Rightarrow> Next (handleError err ''Erreur lors de la recuperation des classes.'')
         | Inr rows \<Rightarrow> Respond 200 \<lparr> count = length rows, totalCount = n,
                                      resPerPage = env_resPerPage env, classes = rows \<rparr>)
    \<and> whereClause (merge_where f []) =
        whereClause (query (filter_qs (search (APIFeatures qs [''libelle''])))))"
proof (intro conjI impI)
  assume h: "auth = Some a \<and> userRole a = ''Teacher'' \<and> findByPk (userId a) = Inr (Some u)
      \<and> ecoleId u = Some s \<and> s \<noteq> []
      \<and> countRows [(FieldKey ''ecoleId'', Eq (QStr s))] = Inr n
      \<and> classes_features qs (env_resPerPage env) = Inr f"
  then show "getAll env findByPk countRows findAll auth qs =
        (case findAll (merge_where f [(FieldKey ''ecoleId'', Eq (QStr s))]) of
           Inl err \<Rightarrow> Next (handleError err ''Erreur lors de la recuperation des classes.'')
         | Inr rows \<Rightarrow> Respond 200 \<lparr> count = length rows, totalCount = n,
                                      resPerPage = env_resPerPage env, classes = rows \<rparr>)"
    by (simp add: getAll_def role_where_def Let_def)
  from h have cf: "classes_features qs (env_resPerPage env) = Inr f"
    by simp
  from classes_features_where [OF cf] show "map_of (whereClause (merge_where f [(FieldKey ''ecoleId'', Eq (QStr s))])) =
        (map_of (whereClause (query (filter_qs (search (APIFeatures qs [''libelle'']))))))
          (FieldKey ''ecoleId'' \<mapsto> Eq (QStr s))"
    by (simp add: merge_where_def obj_spread_def map_of_obj_set)
next
  assume "auth = Some a \<and> userRole a = ''Teacher'' \<and> findByPk (userId a) = Inr (Some u)
      \<and> (ecoleId u = None \<or> ecoleId u = Some [])"
  then show "getAll env findByPk countRows findAll auth qs =
        Respond 200 \<lparr> count = 0, totalCount = 0, resPerPage = env_resPerPage env, classes = [] \<rparr>"
    by (auto simp: getAll_def role_where_def Let_def)
next
  assume h: "auth = Some a \<and> userRole a \<noteq> ''Teacher''
      \<and> countRows [] = Inr n
      \<and> classes_features qs (env_resPerPage env) = Inr f"
  then show "getAll env findByPk countRows findAll auth qs =
        (case findAll (merge_where f []) of
           Inl err \<Rightarrow> Next (handleError err ''Erreur lors de la recuperation des classes.'')
         | Inr rows \<Rightarrow> Respond 200 \<lparr> count = length rows, totalCount = n,
                                      resPerPage = env_resPerPage env, classes = rows \<rparr>)"
    by (simp add: getAll_def role_where_def Let_def)
  from h have cf: "classes_features qs (env_resPerPage env) = Inr f"
    by simp
  from classes_features_where [OF cf] show "whereClause (merge_where f []) =
        whereClause (query (filter_qs (search (APIFeatures qs [''libelle'']))))"
    by (simp add: merge_where_def obj_spread_def)
qed

theorem getAll_teacher_scope_witness:
  "getAll None
     (\<lambda>pk. Inr (Some \<lparr> userId = 7, username = ''awa'', userRole = ''Teacher'',
                        ecoleId = Some ''EC001'', lastLogin = JNull \<rparr>))
     (\<lambda>wh. Inr 3) (\<lambda>q. Inr [q])
     (Some \<lparr> userId = 7, username = ''awa'', userRole = ''Teacher'', ecoleId = Some ''EC001'' \<rparr>)
     [(''niveau'', QStr ''CM2''), (''ecoleId'', QStr ''EC999'')]
   = Respond 200
       \<lparr> count = 1, totalCount = 3, resPerPage = 10,
         classes =
           [\<lparr> whereClause = [(FieldKey ''niveau'', Eq (QStr ''CM2'')),
                              (FieldKey ''ecoleId'', Eq (QStr ''EC001''))],
              order = Some [(''createdAt'', ''DESC'')],
              attributes = Some (Exclude [''password'', ''deletedAt'', ''createdAt'', ''updatedAt'']),
              offset = Some 0, limit = Some 10 \<rparr>] \<rparr>
 \<and> getAll None
     (\<lambda>pk. Inr (Some \<lparr> userId = 8, username = ''ali'', userRole = ''Teacher'',
                        ecoleId = None, lastLogin = JNull \<rparr>))
     (\<lambda>wh. Inr 3) (\<lambda>q. Inr [q])
     (Some \<lparr> userId = 8, username = ''ali'', userRole = ''Teacher'', ecoleId = None \<rparr>)
     [(''niveau'', QStr ''CM2'')]
   = Respond 200 \<lparr> count = 0, totalCount = 0, resPerPage = 10, classes = [] \<rparr>
 \<and> getAll None
     (\<lambda>pk. Inr None) (\<lambda>wh. Inr 3) (\<lambda>q. Inr [q])
     (Some \<lparr> userId = 1, username = ''root'', userRole = ''Administrator'', ecoleId = Some ''EC001'' \<rparr>)
     [(''niveau'', QStr ''CM2'')]
   = Respond 200
       \<lparr> count = 1, totalCount = 3, resPerPage = 10,
         classes =
           [\<lparr> whereClause = [(FieldKey ''niveau'', Eq (QStr ''CM2''))],
              order = Some [(''createdAt'', ''DESC'')],
              attributes = Some (Exclude [''password'', ''deletedAt'', ''createdAt'', ''updatedAt'']),
              offset = Some 0, limit = Some 10 \<rparr>] \<rparr>"
proof -
  let ?ex = "[''password'', ''deletedAt'', ''createdAt'', ''updatedAt'']"
  have env: "env_resPerPage None = 10"
    by (simp add: env_resPerPage_def or_int_def parseInt_undefined)
  have pg: "page_of qs = 1 \<and> limit_of qs 10 = 10" if "map_of qs ''page'' = None" "map_of qs ''limit'' = None" for qs
    using that by (simp add: page_of_def limit_of_def or_int_def parseInt_param_def parseInt_undefined)
  have f1: "classes_features [(''niveau'', QStr ''CM2''), (''ecoleId'', QStr ''EC999'')] (env_resPerPage None)
    = Inr \<lparr> queryString = [(''niveau'', QStr ''CM2''), (''ecoleId'', QStr ''EC999'')],
            query = \<lparr> whereClause = [(FieldKey ''niveau'', Eq (QStr ''CM2'')),
                                     (FieldKey ''ecoleId'', Eq (QStr ''EC999''))],
                      order = Some [(''createdAt'', ''DESC'')],
                      attributes = Some (Exclude ?ex), offset = Some 0, limit = Some 10 \<rparr>,
            searchableFields = [''libelle''], defaultExcludedAttributes = ?ex \<rparr>"
    by (simp add: env classes_features_def search_def filter_qs_def sort_qs_def limitFields_def
         paginate_def APIFeatures_def excludedFields_def obj_spread_def Let_def pg)
  have f2: "classes_features [(''niveau'', QStr ''CM2'')] (env_resPerPage None)
    = Inr \<lparr> queryString = [(''niveau'', QStr ''CM2'')],
            query = \<lparr> whereClause = [(FieldKey ''niveau'', Eq (QStr ''CM2''))],
                      order = Some [(''createdAt'', ''DESC'')],
                      attributes = Some (Exclude ?ex), offset = Some 0, limit = Some 10 \<rparr>,
            searchableFields = [''libelle''], defaultExcludedAttributes = ?ex \<rparr>"
    by (simp add: env classes_features_def search_def filter_qs_def sort_qs_def limitFields_def
         paginate_def APIFeatures_def excludedFields_def obj_spread_def Let_def pg)
  have 1: "getAll None
     (\<lambda>pk. Inr (Some \<lparr> userId = 7, username = ''awa'', userRole = ''Teacher'',
                        ecoleId = Some ''EC001'', lastLogin = JNull \<rparr>))
     (\<lambda>wh. Inr 3) (\<lambda>q. Inr [q])
     (Some \<lparr> userId = 7, username = ''awa'', userRole = ''Teacher'', ecoleId = Some ''EC001'' \<rparr>)
     [(''niveau'', QStr ''CM2''), (''ecoleId'', QStr ''EC999'')]
   = Respond 200
       \<lparr> count = 1, totalCount = 3, resPerPage = 10,
         classes =
           [\<lparr> whereClause = [(FieldKey ''niveau'', Eq (QStr ''CM2'')),
                              (FieldKey ''ecoleId'', Eq (QStr ''EC001''))],
              order = Some [(''createdAt'', ''DESC'')],
              attributes = Some (Exclude ?ex), offset = Some 0, limit = Some 10 \<rparr>] \<rparr>"
    using getAll_teacher_scope [where env = None
        and auth = "Some \<lparr> userId = 7, username = ''awa'', userRole = ''Teacher'', ecoleId = Some ''EC001'' \<rparr>"
        and a = "\<lparr> userId = 7, username = ''awa'', userRole = ''Teacher'', ecoleId = Some ''EC001'' \<rparr>"
        and findByPk = "\<lambda>pk. Inr (Some \<lparr> userId = 7, username = ''awa'', userRole = ''Teacher'',
                        ecoleId = Some ''EC001'', lastLogin = JNull \<rparr>)"
        and u = "\<lparr> userId = 7, username = ''awa'', userRole = ''Teacher'',
                        ecoleId = Some ''EC001'', lastLogin = JNull \<rparr>"
        and s = "''EC001''" and countRows = "\<lambda>wh. Inr 3" and n = 3
        and findAll = "\<lambda>q. Inr [q]"
        and qs = "[(''niveau'', QStr ''CM2''), (''ecoleId'', QStr ''EC999'')]"
        and f = "\<lparr> queryString = [(''niveau'', QStr ''CM2''), (''ecoleId'', QStr ''EC999'')],
            query = \<lparr> whereClause = [(FieldKey ''niveau'', Eq (QStr ''CM2'')),
                                     (FieldKey ''ecoleId'', Eq (QStr ''EC999''))],
                      order = Some [(''createdAt'', ''DESC'')],
                      attributes = Some (Exclude ?ex), offset = Some 0, limit = Some 10 \<rparr>,
            searchableFields = [''libelle''], defaultExcludedAttributes = ?ex \<rparr>"] f1
    by (simp add: env merge_where_def obj_spread_def)
  have 2: "getAll None
     (\<lambda>pk. Inr (Some \<lparr> userId = 8, username = ''ali'', userRole = ''Teacher'',
                        ecoleId = None, lastLogin = JNull \<rparr>))
     (\<lambda>wh. Inr 3) (\<lambda>q. Inr [q])
     (Some \<lparr> userId = 8, username = ''ali'', userRole = ''Teacher'', ecoleId = None \<rparr>)
     [(''niveau'', QStr ''CM2'')]
   = Respond 200 \<lparr> count = 0, totalCount = 0, resPerPage = 10,
                     classes = ([] :: query list) \<rparr>"
    using getAll_teacher_scope [where env = None
        and auth = "Some \<lparr> userId = 8, username = ''ali'', userRole = ''Teacher'', ecoleId = None \<rparr>"
        and a = "\<lparr> userId = 8, username = ''ali'', userRole = ''Teacher'', ecoleId = None \<rparr>"
        and findByPk = "\<lambda>pk. Inr (Some \<lparr> userId = 8, username = ''ali'', userRole = ''Teacher'',
                        ecoleId = None, lastLogin = JNull \<rparr>)"
        and u = "\<lparr> userId = 8, username = ''ali'', userRole = ''Teacher'',
                        ecoleId = None, lastLogin = JNull \<rparr>"
        and countRows = "\<lambda>wh. Inr 3"
        and findAll = "\<lambda>q. Inr [q]"
        and qs = "[(''niveau'', QStr ''CM2'')]"]
    by (simp add: env)
  have 3: "getAll None
     (\<lambda>pk. Inr None) (\<lambda>wh. Inr 3) (\<lambda>q. Inr [q])
     (Some \<lparr> userId = 1, username = ''root'', userRole = ''Administrator'', ecoleId = Some ''EC001'' \<rparr>)
     [(''niveau'', QStr ''CM2'')]
   = Respond 200
       \<lparr> count = 1, totalCount = 3, resPerPage = 10,
         classes =
           [\<lparr> whereClause = [(FieldKey ''niveau'', Eq (QStr ''CM2''))],
              order = Some [(''createdAt'', ''DESC'')],
              attributes = Some (Exclude ?ex), offset = Some 0, limit = Some 10 \<rparr>] \<rparr>"
    using getAll_teacher_scope [where env = None
        and auth = "Some \<lparr> userId = 1, username = ''root'', userRole = ''Administrator'', ecoleId = Some ''EC001'' \<rparr>"
        and a = "\<lparr> userId = 1, username = ''root'', userRole = ''Administrator'', ecoleId = Some ''EC001'' \<rparr>"
        and findByPk = "\<lambda>pk. Inr None"
        and countRows = "\<lambda>wh. Inr 3" and n = 3
        and findAll = "\<lambda>q. Inr [q]"
        and qs = "[(''niveau'', QStr ''CM2'')]"
        and f = "\<lparr> queryString = [(''niveau'', QStr ''CM2'')],
            query = \<lparr> whereClause = [(FieldKey ''niveau'', Eq (QStr ''CM2''))],
                      order = Some [(''createdAt'', ''DESC'')],
                      attributes = Some (Exclude ?ex), offset = Some 0, limit = Some 10 \<rparr>,
            searchableFields = [''libelle''], defaultExcludedAttributes = ?ex \<rparr>"] f2
    by (simp add: env merge_where_def obj_spread_def)
  from 1 2 3 show ?thesis by simp
qed

end
